theory Spec2Isabelle
  imports Main "HOL-Library.Word" "HOL-Library.Monad_Syntax"
begin

section \<open>The Whisper JNI bridge and its stub engine\<close>

text \<open>
  The repository has three files: \<^verbatim>\<open>whisper.h\<close> (the engine interface),
  \<^verbatim>\<open>whisper_dummy.c\<close> (a stub engine) and \<^verbatim>\<open>whisper_jni.cpp\<close> (the JNI bridge
  with the entry points \<open>init\<close>, \<open>free\<close> and \<open>fullTranscribe\<close>).

  Conventions of the embedding:
  \<^item> the target is an LP64 ABI (arm64-v8a, x86_64): a native pointer is 64 bits wide, as
    \<^verbatim>\<open>jlong\<close> is, and the null pointer is the word 0;
  \<^item> a C \<^verbatim>\<open>int\<close>, a \<^verbatim>\<open>jint\<close> and a \<^verbatim>\<open>jsize\<close> are 32-bit words, read as signed with
    \<open>sint\<close> and compared with \<open><s\<close>;
  \<^item> a \<^verbatim>\<open>jfloat\<close> is the 32-bit pattern of the IEEE value: the code never computes with a
    sample, it only moves samples around;
  \<^item> a C string (\<^verbatim>\<open>const char *\<close>) and a Java string passed through modified UTF-8 are the
    list of their bytes before the terminating NUL;
  \<^item> a native call that has undefined behaviour (a crash, at best) returns \<open>None\<close>; every
    function that may reach one has an \<open>option\<close> result, and state is passed explicitly.
\<close>

type_synonym ptr = "64 word"
type_synonym jlong = "64 word"
type_synonym c_int = "32 word"
type_synonym jfloat = "32 word"
type_synonym jfloatArray = nat

subsection \<open>whisper.h: the engine interface\<close>

text \<open>
  Modelled from the spec: the definition of \<^verbatim>\<open>struct whisper_full_params\<close> is missing
  (\<^verbatim>\<open>whisper.h\<close> only declares the struct). Its two fields are the ones that
  \<^verbatim>\<open>whisper_dummy.c\<close> and \<^verbatim>\<open>whisper_jni.cpp\<close> assign, which the spec calls the
  decoding-strategy selector and the progress-reporting flag.
\<close>

record whisper_full_params =
  strategy :: c_int
  print_progress :: bool

text \<open>
  The six functions that \<^verbatim>\<open>whisper.h\<close> declares. The bridge is linked against whichever
  implementation is supplied, so it takes the implementation as a parameter: a record of
  the six functions over the implementation's own state \<open>'s\<close>. Each may change that state
  and each may fault (\<open>None\<close>). \<^verbatim>\<open>const float * samples\<close> is a read-only view of the
  sample buffer: the function receives the buffer's contents and cannot change them.
\<close>

record 's whisper_engine =
  e_init_from_file :: "string \<Rightarrow> 's \<Rightarrow> (ptr \<times> 's) option"
  e_free :: "ptr \<Rightarrow> 's \<Rightarrow> 's option"
  e_full_default_params :: "c_int \<Rightarrow> 's \<Rightarrow> (whisper_full_params \<times> 's) option"
  e_full :: "ptr \<Rightarrow> whisper_full_params \<Rightarrow> jfloat list \<Rightarrow> c_int \<Rightarrow> 's \<Rightarrow> (c_int \<times> 's) option"
  e_full_n_segments :: "ptr \<Rightarrow> 's \<Rightarrow> (c_int \<times> 's) option"
  e_full_get_segment_text :: "ptr \<Rightarrow> c_int \<Rightarrow> 's \<Rightarrow> (string \<times> 's) option"

subsection \<open>The C heap used by the stub\<close>

text \<open>
  \<^verbatim>\<open>malloc\<close> and \<^verbatim>\<open>free\<close> of the C library. The heap is the list of block addresses that
  \<^verbatim>\<open>malloc\<close> can still hand out and the list of blocks that are live. \<^verbatim>\<open>malloc\<close> returns
  the null pointer when no block is left; \<^verbatim>\<open>free\<close> of the null pointer does nothing, and
  \<^verbatim>\<open>free\<close> of a pointer that is not a live block is undefined behaviour.
\<close>

record c_heap =
  avail :: "ptr list"
  live :: "ptr list"

definition malloc :: "nat \<Rightarrow> c_heap \<Rightarrow> ptr \<times> c_heap" where
  "malloc nbytes h =
     (case avail h of
        [] \<Rightarrow> (0, h)
      | p # ps \<Rightarrow> (p, h\<lparr>avail := ps, live := p # live h\<rparr>))"

definition c_free :: "ptr \<Rightarrow> c_heap \<Rightarrow> c_heap option" where
  "c_free p h =
     (if p = 0 then Some h
      else if p \<in> set (live h)
           then Some (h\<lparr>avail := avail h @ [p], live := removeAll p (live h)\<rparr>)
           else None)"

subsection \<open>whisper_dummy.c: the stub engine\<close>

text \<open>
  \<^verbatim>\<open>struct whisper_context { int dummy; }\<close>: one \<^verbatim>\<open>int\<close>, which no function reads or
  writes. A context is therefore only its address, live or not.
\<close>

definition sizeof_whisper_context :: nat where
  "sizeof_whisper_context = 4"

definition whisper_init_from_file :: "string \<Rightarrow> c_heap \<Rightarrow> ptr \<times> c_heap" where
  "whisper_init_from_file path_model h =
     (let (ctx, h') = malloc sizeof_whisper_context h in (ctx, h'))"

definition whisper_free :: "ptr \<Rightarrow> c_heap \<Rightarrow> c_heap option" where
  "whisper_free ctx h = c_free ctx h"

definition whisper_full_default_params :: "c_int \<Rightarrow> whisper_full_params" where
  "whisper_full_default_params strategy' =
     \<lparr>strategy = strategy', print_progress = False\<rparr>"

definition whisper_full ::
  "ptr \<Rightarrow> whisper_full_params \<Rightarrow> jfloat list \<Rightarrow> c_int \<Rightarrow> c_int" where
  "whisper_full ctx params samples n_samples = 0"

definition whisper_full_n_segments :: "ptr \<Rightarrow> c_int" where
  "whisper_full_n_segments ctx = 1"

definition whisper_full_get_segment_text :: "ptr \<Rightarrow> c_int \<Rightarrow> string" where
  "whisper_full_get_segment_text ctx i_segment = '' [Dummy Transcription] ''"

text \<open>The stub as an implementation of the interface; its state is the C heap.\<close>

definition dummy_engine :: "c_heap whisper_engine" where
  "dummy_engine =
     \<lparr>e_init_from_file = (\<lambda>path_model h. Some (whisper_init_from_file path_model h)),
      e_free = whisper_free,
      e_full_default_params = (\<lambda>strategy' h. Some (whisper_full_default_params strategy', h)),
      e_full = (\<lambda>ctx params samples n_samples h.
                  Some (whisper_full ctx params samples n_samples, h)),
      e_full_n_segments = (\<lambda>ctx h. Some (whisper_full_n_segments ctx, h)),
      e_full_get_segment_text = (\<lambda>ctx i_segment h.
                  Some (whisper_full_get_segment_text ctx i_segment, h))\<rparr>"

subsection \<open>The managed runtime seen from native code\<close>

text \<open>
  What the bridge uses of JNI and of the Android log. The runtime state holds the float
  arrays of the managed heap (by reference), the number of native views handed out and not
  yet released (\<^verbatim>\<open>GetStringUTFChars\<close>, \<^verbatim>\<open>GetFloatArrayElements\<close>), and the lines written
  to the log. A log line keeps the format string and its arguments apart.

  These functions belong to the platform, not to the repository. They are modelled as the
  JNI specification describes them on a runtime that has the memory for the view or the
  string asked for; a runtime that runs out of memory inside one of them is outside the
  model, as is \<^verbatim>\<open>std::string\<close> failing to grow. The allocation that the repository's own
  code makes, the \<^verbatim>\<open>malloc\<close> of the stub, is modelled with its failure.
\<close>

datatype log_priority = ANDROID_LOG_INFO | ANDROID_LOG_ERROR

datatype log_arg = Arg_str string | Arg_int c_int

type_synonym log_line = "log_priority \<times> string \<times> string \<times> log_arg list"

record runtime =
  float_arrays :: "jfloatArray \<rightharpoonup> jfloat list"
  native_views :: nat
  logcat :: "log_line list"

definition TAG :: string where
  "TAG = ''WhisperJNI''"

definition android_log_print ::
  "log_priority \<Rightarrow> string \<Rightarrow> string \<Rightarrow> log_arg list \<Rightarrow> runtime \<Rightarrow> runtime" where
  "android_log_print prio tag fmt args env = env\<lparr>logcat := logcat env @ [(prio, tag, fmt, args)]\<rparr>"

definition LOGI :: "string \<Rightarrow> log_arg list \<Rightarrow> runtime \<Rightarrow> runtime" where
  "LOGI fmt args env = android_log_print ANDROID_LOG_INFO TAG fmt args env"

definition LOGE :: "string \<Rightarrow> log_arg list \<Rightarrow> runtime \<Rightarrow> runtime" where
  "LOGE fmt args env = android_log_print ANDROID_LOG_ERROR TAG fmt args env"

text \<open>
  \<^verbatim>\<open>GetStringUTFChars\<close> hands out the bytes of a Java string, \<^verbatim>\<open>ReleaseStringUTFChars\<close>
  takes the view back, \<^verbatim>\<open>NewStringUTF\<close> builds a Java string from the bytes of a C string.
\<close>

definition GetStringUTFChars :: "string \<Rightarrow> runtime \<Rightarrow> string \<times> runtime" where
  "GetStringUTFChars jstr env = (jstr, env\<lparr>native_views := Suc (native_views env)\<rparr>)"

definition ReleaseStringUTFChars :: "string \<Rightarrow> string \<Rightarrow> runtime \<Rightarrow> runtime" where
  "ReleaseStringUTFChars jstr chars env = env\<lparr>native_views := native_views env - 1\<rparr>"

definition NewStringUTF :: "string \<Rightarrow> string" where
  "NewStringUTF bytes = bytes"

text \<open>
  A float array is reached through its reference; a reference that names no array (a null
  or stale reference) makes the JNI call fault. \<^verbatim>\<open>GetFloatArrayElements\<close> hands out a
  buffer with the elements; \<^verbatim>\<open>ReleaseFloatArrayElements\<close> takes it back and, unless the
  mode is \<^verbatim>\<open>JNI_ABORT\<close> (2), copies the buffer's contents into the array.
\<close>

definition GetArrayLength :: "jfloatArray \<Rightarrow> runtime \<Rightarrow> c_int option" where
  "GetArrayLength array env = map_option (\<lambda>elems. of_nat (length elems)) (float_arrays env array)"

definition GetFloatArrayElements :: "jfloatArray \<Rightarrow> runtime \<Rightarrow> (jfloat list \<times> runtime) option" where
  "GetFloatArrayElements array env =
     map_option (\<lambda>elems. (elems, env\<lparr>native_views := Suc (native_views env)\<rparr>))
       (float_arrays env array)"

definition ReleaseFloatArrayElements ::
  "jfloatArray \<Rightarrow> jfloat list \<Rightarrow> c_int \<Rightarrow> runtime \<Rightarrow> runtime" where
  "ReleaseFloatArrayElements array elems mode env =
     (let env' = (if mode = 2 then env
                  else env\<lparr>float_arrays := (float_arrays env)(array \<mapsto> elems)\<rparr>)
      in if mode = 1 then env' else env'\<lparr>native_views := native_views env' - 1\<rparr>)"

subsection \<open>whisper_jni.cpp: the bridge\<close>

text \<open>The two casts between a context pointer and the handle; both keep all 64 bits.\<close>

definition ptr_to_jlong :: "ptr \<Rightarrow> jlong" where
  "ptr_to_jlong ctx = ucast ctx"

definition jlong_to_ptr :: "jlong \<Rightarrow> ptr" where
  "jlong_to_ptr contextPtr = ucast contextPtr"

text \<open>
  \<^verbatim>\<open>Java_com_pccontrol_voice_audio_SpeechToTextService_00024WhisperModel_init\<close>.
  The arguments \<open>language\<close> and \<open>threads\<close> are not used.
\<close>

definition Java_com_pccontrol_voice_audio_SpeechToTextService_00024WhisperModel_init ::
  "'s whisper_engine \<Rightarrow> string \<Rightarrow> string \<Rightarrow> c_int \<Rightarrow> runtime \<Rightarrow> 's \<Rightarrow> (jlong \<times> runtime \<times> 's) option" where
  "Java_com_pccontrol_voice_audio_SpeechToTextService_00024WhisperModel_init
      eng modelPath language threads env s =
     (let (model_path_str, env1) = GetStringUTFChars modelPath env;
          env2 = LOGI ''Initializing Whisper model from %s'' [Arg_str model_path_str] env1
      in do {
        (ctx, s1) \<leftarrow> e_init_from_file eng model_path_str s;
        let env3 = ReleaseStringUTFChars modelPath model_path_str env2;
        if ctx = 0
        then Some (0, LOGE ''Failed to initialize Whisper context'' [] env3, s1)
        else Some (ptr_to_jlong ctx, env3, s1)
      })"

text \<open>\<^verbatim>\<open>Java_com_pccontrol_voice_audio_SpeechToTextService_00024WhisperModel_free\<close>.\<close>

definition Java_com_pccontrol_voice_audio_SpeechToTextService_00024WhisperModel_free ::
  "'s whisper_engine \<Rightarrow> jlong \<Rightarrow> runtime \<Rightarrow> 's \<Rightarrow> (runtime \<times> 's) option" where
  "Java_com_pccontrol_voice_audio_SpeechToTextService_00024WhisperModel_free
      eng contextPtr env s =
     (let ctx = jlong_to_ptr contextPtr
      in if ctx \<noteq> 0
         then do { s1 \<leftarrow> e_free eng ctx s; Some (env, s1) }
         else Some (env, s))"

text \<open>
  The loop of \<open>fullTranscribe\<close>:
  \<^verbatim>\<open>for (int i = 0; i < n_segments; ++i) { text = ...(ctx, i); result += text; }\<close>
  with the counter as the 32-bit signed \<^verbatim>\<open>int\<close> it is.
\<close>

function transcribe_loop ::
  "'s whisper_engine \<Rightarrow> ptr \<Rightarrow> c_int \<Rightarrow> c_int \<Rightarrow> string \<Rightarrow> 's \<Rightarrow> (string \<times> 's) option" where
  "transcribe_loop eng ctx n_segments i result s =
     (if i <s n_segments
      then do {
        (text, s1) \<leftarrow> e_full_get_segment_text eng ctx i s;
        transcribe_loop eng ctx n_segments (i + 1) (result @ text) s1
      }
      else Some (result, s))"
  by pat_completeness auto

termination
proof (relation "measure (\<lambda>(eng, ctx, n_segments, i, result, s). nat (sint n_segments - sint i))")
  show "wf (measure (\<lambda>(eng :: 's whisper_engine, ctx :: ptr, n_segments :: c_int, i :: c_int,
                        result :: string, s :: 's). nat (sint n_segments - sint i)))"
    by simp
next
  fix eng :: "'s whisper_engine" and ctx :: ptr and n_segments i :: c_int
    and result :: string and s :: 's and segment :: string and s1 :: 's
  assume less: "i <s n_segments"
  have "sint i < sint n_segments"
    using less by (simp add: word_sless_alt)
  moreover have "sint n_segments < 2 ^ (LENGTH(32) - 1)"
    by (rule sint_lt)
  moreover have "- (2 ^ (LENGTH(32) - 1)) \<le> sint i"
    by (rule sint_ge)
  ultimately have "signed_take_bit (LENGTH(32) - 1) (sint i + 1) = sint i + 1"
    by (simp add: signed_take_bit_int_eq_self)
  then have "sint (i + 1) = sint i + 1"
    by (simp add: sint_word_ariths)
  with \<open>sint i < sint n_segments\<close>
  show "((eng, ctx, n_segments, i + 1, result @ segment, s1), (eng, ctx, n_segments, i, result, s))
          \<in> measure (\<lambda>(eng, ctx, n_segments, i, result, s). nat (sint n_segments - sint i))"
    by simp
qed

declare transcribe_loop.simps [simp del]

text \<open>
  \<^verbatim>\<open>Java_com_pccontrol_voice_audio_SpeechToTextService_00024WhisperModel_fullTranscribe\<close>.
  The result is the Java string returned, the runtime and the engine state.
\<close>

definition Java_com_pccontrol_voice_audio_SpeechToTextService_00024WhisperModel_fullTranscribe ::
  "'s whisper_engine \<Rightarrow> jlong \<Rightarrow> jfloatArray \<Rightarrow> runtime \<Rightarrow> 's \<Rightarrow> (string \<times> runtime \<times> 's) option" where
  "Java_com_pccontrol_voice_audio_SpeechToTextService_00024WhisperModel_fullTranscribe
      eng contextPtr audioData env s =
     (let ctx = jlong_to_ptr contextPtr
      in if ctx = 0 then Some (NewStringUTF '''', env, s)
         else do {
           len \<leftarrow> GetArrayLength audioData env;
           (samples, env1) \<leftarrow> GetFloatArrayElements audioData env;
           (params0, s1) \<leftarrow> e_full_default_params eng 0 s;
           let params = params0\<lparr>print_progress := False\<rparr>;
           let env2 = LOGI ''Starting transcription of %d samples'' [Arg_int len] env1;
           (status, s2) \<leftarrow> e_full eng ctx params samples len s1;
           if status \<noteq> 0
           then
             let env3 = LOGE ''Whisper full transcription failed'' [] env2;
                 env4 = ReleaseFloatArrayElements audioData samples 0 env3
             in Some (NewStringUTF '''', env4, s2)
           else do {
             (n_segments, s3) \<leftarrow> e_full_n_segments eng ctx s2;
             (result, s4) \<leftarrow> transcribe_loop eng ctx n_segments 0 [] s3;
             let env3 = ReleaseFloatArrayElements audioData samples 0 env2;
             Some (NewStringUTF result, env3, s4)
           }
         })"

text \<open>The three entry points under the names the interface table gives them.\<close>

abbreviation init ::
  "'s whisper_engine \<Rightarrow> string \<Rightarrow> string \<Rightarrow> c_int \<Rightarrow> runtime \<Rightarrow> 's \<Rightarrow> (jlong \<times> runtime \<times> 's) option" where
  "init \<equiv> Java_com_pccontrol_voice_audio_SpeechToTextService_00024WhisperModel_init"

abbreviation free ::
  "'s whisper_engine \<Rightarrow> jlong \<Rightarrow> runtime \<Rightarrow> 's \<Rightarrow> (runtime \<times> 's) option" where
  "free \<equiv> Java_com_pccontrol_voice_audio_SpeechToTextService_00024WhisperModel_free"

abbreviation transcribe ::
  "'s whisper_engine \<Rightarrow> jlong \<Rightarrow> jfloatArray \<Rightarrow> runtime \<Rightarrow> 's \<Rightarrow> (string \<times> runtime \<times> 's) option" where
  "transcribe \<equiv> Java_com_pccontrol_voice_audio_SpeechToTextService_00024WhisperModel_fullTranscribe"

subsection \<open>Observing the calls into the engine\<close>

text \<open>
  To say which engine functions a bridge function calls, with which arguments and in
  which order, an engine is wrapped so that every call that returns is appended to a
  trace kept beside the engine's state. The bridge cannot tell the wrapped engine from
  the engine itself.
\<close>

datatype engine_call =
    Call_init_from_file string
  | Call_free ptr
  | Call_full_default_params c_int
  | Call_full ptr whisper_full_params "jfloat list" c_int
  | Call_full_n_segments ptr
  | Call_full_get_segment_text ptr c_int

definition logged ::
  "engine_call \<Rightarrow> engine_call list \<Rightarrow> ('r \<times> 's) option \<Rightarrow> ('r \<times> 's \<times> engine_call list) option" where
  "logged c tr res = map_option (\<lambda>(r, s'). (r, s', tr @ [c])) res"

definition traced :: "'s whisper_engine \<Rightarrow> ('s \<times> engine_call list) whisper_engine" where
  "traced eng =
     \<lparr>e_init_from_file = (\<lambda>path_model (s, tr).
        logged (Call_init_from_file path_model) tr (e_init_from_file eng path_model s)),
      e_free = (\<lambda>ctx (s, tr).
        map_option (\<lambda>s'. (s', tr @ [Call_free ctx])) (e_free eng ctx s)),
      e_full_default_params = (\<lambda>strategy' (s, tr).
        logged (Call_full_default_params strategy') tr (e_full_default_params eng strategy' s)),
      e_full = (\<lambda>ctx params samples n_samples (s, tr).
        logged (Call_full ctx params samples n_samples) tr
          (e_full eng ctx params samples n_samples s)),
      e_full_n_segments = (\<lambda>ctx (s, tr).
        logged (Call_full_n_segments ctx) tr (e_full_n_segments eng ctx s)),
      e_full_get_segment_text = (\<lambda>ctx i_segment (s, tr).
        logged (Call_full_get_segment_text ctx i_segment) tr
          (e_full_get_segment_text eng ctx i_segment s))\<rparr>"

text \<open>The strategies that the calls of \<^verbatim>\<open>whisper_full_default_params\<close> in a trace ask for.\<close>

fun requested_strategies :: "engine_call list \<Rightarrow> c_int list" where
  "requested_strategies [] = []"
| "requested_strategies (Call_full_default_params k # cs) = k # requested_strategies cs"
| "requested_strategies (c # cs) = requested_strategies cs"

subsection \<open>The transcript as the specification words it\<close>

text \<open>
  The specification's transcript of a context: the texts \<open>segment_text(ctx, i)\<close> for
  \<open>i\<close> in \<open>[0, segment_count(ctx))\<close>, read in this order from the engine state that
  \<open>infer\<close> left, and concatenated with nothing in between.
\<close>

fun segment_texts :: "'s whisper_engine \<Rightarrow> ptr \<Rightarrow> nat list \<Rightarrow> 's \<Rightarrow> (string list \<times> 's) option" where
  "segment_texts eng ctx [] s = Some ([], s)"
| "segment_texts eng ctx (i # is) s =
     do {
       (text, s1) \<leftarrow> e_full_get_segment_text eng ctx (of_nat i) s;
       (texts, s2) \<leftarrow> segment_texts eng ctx is s1;
       Some (text # texts, s2)
     }"

definition spec_transcript :: "'s whisper_engine \<Rightarrow> ptr \<Rightarrow> 's \<Rightarrow> (string \<times> 's) option" where
  "spec_transcript eng ctx s =
     do {
       (n, s1) \<leftarrow> e_full_n_segments eng ctx s;
       (texts, s2) \<leftarrow> segment_texts eng ctx [0 ..< nat (sint n)] s1;
       Some (concat texts, s2)
     }"

section \<open>Properties\<close>

subsection \<open>Auxiliary facts\<close>

lemmas bridge_defs =
  Java_com_pccontrol_voice_audio_SpeechToTextService_00024WhisperModel_init_def
  Java_com_pccontrol_voice_audio_SpeechToTextService_00024WhisperModel_free_def
  Java_com_pccontrol_voice_audio_SpeechToTextService_00024WhisperModel_fullTranscribe_def

lemma jlong_to_ptr_inverse: "jlong_to_ptr (ptr_to_jlong ctx) = ctx"
  by (simp add: jlong_to_ptr_def ptr_to_jlong_def)

lemma ptr_to_jlong_eq_0: "ptr_to_jlong ctx = 0 \<longleftrightarrow> ctx = 0"
  by (simp add: ptr_to_jlong_def)

text \<open>Below the bound of the loop the counter's increment does not wrap.\<close>

lemma sint_succ_of_sless:
  fixes i n :: c_int
  assumes "i <s n"
  shows "sint (i + 1) = sint i + 1"
proof -
  have "sint i < sint n"
    using assms by (simp add: word_sless_alt)
  moreover have "sint n < 2 ^ (LENGTH(32) - 1)"
    by (rule sint_lt)
  moreover have "- (2 ^ (LENGTH(32) - 1)) \<le> sint i"
    by (rule sint_ge)
  ultimately have "signed_take_bit (LENGTH(32) - 1) (sint i + 1) = sint i + 1"
    by (simp add: signed_take_bit_int_eq_self)
  then show ?thesis
    by (simp add: sint_word_ariths)
qed

text \<open>
  The loop, started at a counter \<open>i \<ge> 0\<close> with the accumulator \<open>acc\<close>, appends to \<open>acc\<close>
  the texts of the segments \<open>i, \<dots>, n - 1\<close>, read in this order.
\<close>

lemma transcribe_loop_segment_texts:
  "0 \<le> sint i \<Longrightarrow>
   transcribe_loop eng ctx n i acc s =
     do {
       (texts, s') \<leftarrow> segment_texts eng ctx [nat (sint i) ..< nat (sint n)] s;
       Some (acc @ concat texts, s')
     }"
proof (induction eng ctx n i acc s rule: transcribe_loop.induct)
  case (1 eng ctx n i acc s)
  show ?case
  proof (cases "i <s n")
    case False
    then have "nat (sint n) \<le> nat (sint i)"
      by (simp add: word_sless_alt)
    with False show ?thesis
      by (simp add: transcribe_loop.simps [of eng ctx n i])
  next
    case True
    then have lt: "sint i < sint n"
      by (simp add: word_sless_alt)
    have succ: "sint (i + 1) = sint i + 1"
      using True by (rule sint_succ_of_sless)
    have upt: "[nat (sint i) ..< nat (sint n)] = nat (sint i) # [nat (sint (i + 1)) ..< nat (sint n)]"
      using lt "1.prems" by (simp add: succ upt_conv_Cons nat_add_distrib)
    have idx: "of_nat (nat (sint i)) = i"
      using "1.prems" by simp
    show ?thesis
    proof (cases "e_full_get_segment_text eng ctx i s")
      case None
      with True show ?thesis
        by (simp add: transcribe_loop.simps [of eng ctx n i] upt idx)
    next
      case (Some a)
      obtain t s1 where a: "a = (t, s1)"
        by (cases a)
      have "0 \<le> sint (i + 1)"
        using "1.prems" succ by simp
      with "1.IH" [OF True Some a [symmetric]]
      have IH: "transcribe_loop eng ctx n (i + 1) (acc @ t) s1 =
          do {
            (texts, s') \<leftarrow> segment_texts eng ctx [nat (sint (i + 1)) ..< nat (sint n)] s1;
            Some ((acc @ t) @ concat texts, s')
          }"
        by simp
      show ?thesis
        using True Some a
        by (simp add: transcribe_loop.simps [of eng ctx n i] upt idx IH
              split: Option.bind_split prod.split)
    qed
  qed
qed

text \<open>A handle that \<open>init\<close> returns is the cast of the pointer that \<open>create\<close> returned.\<close>

lemma init_handle_of_context:
  assumes "e_init_from_file eng modelPath s0 = Some (ctx, s0')"
    and "init eng modelPath language threads env0 s0 = Some (h, env0', s0'')"
  shows "h = ptr_to_jlong ctx \<and> s0'' = s0'"
  using assms
  by (auto simp: bridge_defs GetStringUTFChars_def ptr_to_jlong_def Let_def split: if_splits)

text \<open>
  \<open>transcribe\<close> past its null check and the two array calls: what is left is the
  sequence of engine calls, and the runtime that each of the two exits leaves.
\<close>

lemma transcribe_with_context:
  assumes "h \<noteq> 0" and "float_arrays env audioData = Some samples"
  shows "transcribe eng h audioData env s =
     do {
       (params0, s1) \<leftarrow> e_full_default_params eng 0 s;
       (status, s2) \<leftarrow> e_full eng (jlong_to_ptr h) (params0\<lparr>print_progress := False\<rparr>) samples
                         (of_nat (length samples)) s1;
       if status \<noteq> 0
       then Some ('''',
              ReleaseFloatArrayElements audioData samples 0
                (LOGE ''Whisper full transcription failed'' []
                  (LOGI ''Starting transcription of %d samples'' [Arg_int (of_nat (length samples))]
                    (env\<lparr>native_views := Suc (native_views env)\<rparr>))),
              s2)
       else do {
         (n_segments, s3) \<leftarrow> e_full_n_segments eng (jlong_to_ptr h) s2;
         (result, s4) \<leftarrow> transcribe_loop eng (jlong_to_ptr h) n_segments 0 [] s3;
         Some (result,
           ReleaseFloatArrayElements audioData samples 0
             (LOGI ''Starting transcription of %d samples'' [Arg_int (of_nat (length samples))]
               (env\<lparr>native_views := Suc (native_views env)\<rparr>)),
           s4)
       }
     }"
proof -
  have "jlong_to_ptr h \<noteq> 0"
    using assms(1) by (simp add: jlong_to_ptr_def)
  then show ?thesis
    unfolding Java_com_pccontrol_voice_audio_SpeechToTextService_00024WhisperModel_fullTranscribe_def
      Let_def NewStringUTF_def
    using assms(2) by (simp add: GetArrayLength_def GetFloatArrayElements_def)
qed

text \<open>With the stub, \<open>transcribe\<close> on a non-zero handle and an array always takes the same path.\<close>

lemma dummy_transcribe:
  assumes "h \<noteq> 0" and "float_arrays env audioData = Some samples"
  shows "transcribe dummy_engine h audioData env s =
     Some ('' [Dummy Transcription] '',
       ReleaseFloatArrayElements audioData samples 0
         (LOGI ''Starting transcription of %d samples'' [Arg_int (of_nat (length samples))]
           (env\<lparr>native_views := Suc (native_views env)\<rparr>)),
       s)"
  by (simp add: transcribe_with_context [OF assms] dummy_engine_def whisper_full_def
        whisper_full_n_segments_def whisper_full_get_segment_text_def transcribe_loop.simps
        word_sless_alt)

lemma float_arrays_LOGI: "float_arrays (LOGI fmt args env) = float_arrays env"
  by (simp add: LOGI_def android_log_print_def)

lemma float_arrays_LOGE: "float_arrays (LOGE fmt args env) = float_arrays env"
  by (simp add: LOGE_def android_log_print_def)

lemma float_arrays_Release_same:
  "float_arrays env audioData = Some samples \<Longrightarrow>
   float_arrays (ReleaseFloatArrayElements audioData samples 0 env) = float_arrays env"
  by (simp add: ReleaseFloatArrayElements_def map_upd_triv)

text \<open>The wrapped engine, call by call.\<close>

lemma logged_simps:
  "logged c tr None = None"
  "logged c tr (Some (r, s)) = Some (r, s, tr @ [c])"
  by (simp_all add: logged_def)

lemma traced_simps:
  "e_init_from_file (traced eng) path_model (s, tr) =
     logged (Call_init_from_file path_model) tr (e_init_from_file eng path_model s)"
  "e_free (traced eng) ctx (s, tr) = map_option (\<lambda>s'. (s', tr @ [Call_free ctx])) (e_free eng ctx s)"
  "e_full_default_params (traced eng) k (s, tr) =
     logged (Call_full_default_params k) tr (e_full_default_params eng k s)"
  "e_full (traced eng) ctx params samples n_samples (s, tr) =
     logged (Call_full ctx params samples n_samples) tr (e_full eng ctx params samples n_samples s)"
  "e_full_n_segments (traced eng) ctx (s, tr) =
     logged (Call_full_n_segments ctx) tr (e_full_n_segments eng ctx s)"
  "e_full_get_segment_text (traced eng) ctx i (s, tr) =
     logged (Call_full_get_segment_text ctx i) tr (e_full_get_segment_text eng ctx i s)"
  by (simp_all add: traced_def)

lemma requested_strategies_append:
  "requested_strategies (cs @ ds) = requested_strategies cs @ requested_strategies ds"
  by (induction cs rule: requested_strategies.induct) simp_all

text \<open>The loop only adds calls of \<^verbatim>\<open>whisper_full_get_segment_text\<close> to the trace.\<close>

lemma traced_loop_trace:
  "transcribe_loop eng' ctx n i acc st = Some (r, st') \<Longrightarrow> eng' = traced eng \<Longrightarrow>
   \<exists>rest. snd st' = snd st @ rest \<and> requested_strategies rest = []"
proof (induction eng' ctx n i acc st rule: transcribe_loop.induct)
  case (1 eng' ctx n i acc st)
  show ?case
  proof (cases "i <s n")
    case False
    with "1.prems"(1) have "st' = st"
      by (subst (asm) transcribe_loop.simps) simp
    then show ?thesis
      by simp
  next
    case True
    obtain s tr where st: "st = (s, tr)"
      by (cases st)
    from "1.prems" True obtain t st1
      where get: "e_full_get_segment_text eng' ctx i st = Some (t, st1)"
        and rest: "transcribe_loop eng' ctx n (i + 1) (acc @ t) st1 = Some (r, st')"
      by (subst (asm) transcribe_loop.simps) (auto simp: Option.bind_eq_Some_conv)
    from get "1.prems"(2) st have tr1: "snd st1 = tr @ [Call_full_get_segment_text ctx i]"
      by (cases "e_full_get_segment_text eng ctx i s") (auto simp: traced_simps logged_simps)
    from "1.IH" [OF True get refl rest "1.prems"(2)]
    obtain rest' where "snd st' = snd st1 @ rest'" "requested_strategies rest' = []"
      by blast
    with tr1 st show ?thesis
      by (simp add: requested_strategies_append)
  qed
qed

text \<open>
  With the stub behind the wrapper, \<open>transcribe\<close> makes the same four engine calls on
  every run; and the specification's transcript of the stub is the placeholder.
\<close>

lemma traced_dummy_transcribe:
  assumes "h \<noteq> 0" and "float_arrays env audioData = Some samples"
  shows "transcribe (traced dummy_engine) h audioData env (s, tr) =
     Some ('' [Dummy Transcription] '',
       ReleaseFloatArrayElements audioData samples 0
         (LOGI ''Starting transcription of %d samples'' [Arg_int (of_nat (length samples))]
           (env\<lparr>native_views := Suc (native_views env)\<rparr>)),
       (s, tr @ [Call_full_default_params 0,
                 Call_full (jlong_to_ptr h) \<lparr>strategy = 0, print_progress = False\<rparr> samples
                   (of_nat (length samples)),
                 Call_full_n_segments (jlong_to_ptr h),
                 Call_full_get_segment_text (jlong_to_ptr h) 0]))"
  by (simp add: transcribe_with_context [OF assms] traced_simps logged_simps dummy_engine_def
        whisper_full_default_params_def whisper_full_def whisper_full_n_segments_def
        whisper_full_get_segment_text_def transcribe_loop.simps word_sless_alt)

lemma dummy_spec_transcript:
  "spec_transcript dummy_engine ctx s = Some ('' [Dummy Transcription] '', s)"
  by (simp add: spec_transcript_def dummy_engine_def whisper_full_n_segments_def
        whisper_full_get_segment_text_def)

text \<open>Two runs on concrete inputs, used as examples below.\<close>

lemma dummy_init_example:
  "init dummy_engine ''model.bin'' ''en'' 4
     \<lparr>float_arrays = [7 \<mapsto> [0, 0, 0]], native_views = 0, logcat = []\<rparr>
     \<lparr>avail = [4096], live = []\<rparr>
   = Some (4096,
       \<lparr>float_arrays = [7 \<mapsto> [0, 0, 0]], native_views = 0,
        logcat = [(ANDROID_LOG_INFO, ''WhisperJNI'', ''Initializing Whisper model from %s'',
                   [Arg_str ''model.bin''])]\<rparr>,
       \<lparr>avail = [], live = [4096]\<rparr>)"
  by (simp add: bridge_defs dummy_engine_def whisper_init_from_file_def malloc_def
        GetStringUTFChars_def ReleaseStringUTFChars_def LOGI_def TAG_def android_log_print_def
        ptr_to_jlong_def)

lemma traced_dummy_run:
  "transcribe (traced dummy_engine) 4096 7
     \<lparr>float_arrays = [7 \<mapsto> [1, 2, 3]], native_views = 0, logcat = []\<rparr>
     (\<lparr>avail = [], live = [4096]\<rparr>, [])
   = Some ('' [Dummy Transcription] '',
       \<lparr>float_arrays = [7 \<mapsto> [1, 2, 3]], native_views = 0,
        logcat = [(ANDROID_LOG_INFO, ''WhisperJNI'', ''Starting transcription of %d samples'',
                   [Arg_int 3])]\<rparr>,
       (\<lparr>avail = [], live = [4096]\<rparr>,
        [Call_full_default_params 0,
         Call_full 4096 \<lparr>strategy = 0, print_progress = False\<rparr> [1, 2, 3] 3,
         Call_full_n_segments 4096,
         Call_full_get_segment_text 4096 0]))"
  by (simp add: transcribe_with_context traced_simps logged_simps dummy_engine_def
        whisper_full_default_params_def whisper_full_def whisper_full_n_segments_def
        whisper_full_get_segment_text_def transcribe_loop.simps jlong_to_ptr_def
        ReleaseFloatArrayElements_def LOGI_def TAG_def android_log_print_def word_sless_alt)

subsection \<open>The transcript\<close>

text \<open>
  Claim C1. Let \<open>h\<close> be a handle obtained from a successful \<open>init\<close>, which made \<open>create\<close>
  return the context \<open>ctx\<close>, and let \<open>transcribe\<close> be called with \<open>h\<close> and an array of
  samples in any later state. If \<open>infer\<close> succeeds on that context (status 0), leaving the
  engine in state \<open>s2\<close>, then \<open>transcribe\<close> returns the string that the specification
  words: the concatenation, in order and with no separators, of \<open>segment_text(ctx, i)\<close>
  for \<open>i\<close> in \<open>[0, segment_count(ctx))\<close>, read from \<open>s2\<close>; and it faults only if reading
  the segments does.
\<close>

theorem transcribe_concatenates_segments:
  assumes create: "e_init_from_file eng modelPath s0 = Some (ctx, s0')"
    and init: "init eng modelPath language threads env0 s0 = Some (h, env0', s0')"
    and ok: "h \<noteq> 0"
    and array: "float_arrays env audioData = Some samples"
    and params: "e_full_default_params eng 0 s = Some (params0, s1)"
    and infer: "e_full eng ctx (params0\<lparr>print_progress := False\<rparr>) samples
                  (of_nat (length samples)) s1 = Some (0, s2)"
  shows "map_option (\<lambda>(text, env', s'). (text, s')) (transcribe eng h audioData env s) =
           spec_transcript eng ctx s2"
proof -
  have h: "h = ptr_to_jlong ctx"
    using init_handle_of_context [OF create init] by simp
  then have ctx: "jlong_to_ptr h = ctx"
    by (simp add: jlong_to_ptr_inverse)
  have loop: "transcribe_loop eng ctx n 0 [] s3 =
      do { (texts, s') \<leftarrow> segment_texts eng ctx [0 ..< nat (sint n)] s3; Some (concat texts, s') }"
    for n s3
    using transcribe_loop_segment_texts [of 0 eng ctx n "[]" s3] by simp
  show ?thesis
    using ctx params infer
    by (simp add: transcribe_with_context [OF ok array] spec_transcript_def loop
          split: Option.bind_split prod.split)
qed

theorem transcribe_concatenates_segments_witness:
  "init dummy_engine ''model.bin'' ''en'' 4
     \<lparr>float_arrays = [7 \<mapsto> [0, 0, 0]], native_views = 0, logcat = []\<rparr>
     \<lparr>avail = [4096], live = []\<rparr>
     = Some (4096,
         \<lparr>float_arrays = [7 \<mapsto> [0, 0, 0]], native_views = 0,
          logcat = [(ANDROID_LOG_INFO, ''WhisperJNI'', ''Initializing Whisper model from %s'',
                     [Arg_str ''model.bin''])]\<rparr>,
         \<lparr>avail = [], live = [4096]\<rparr>) \<and>
   map_option (\<lambda>(text, env', s'). (text, s'))
     (transcribe dummy_engine 4096 7
        \<lparr>float_arrays = [7 \<mapsto> [1, 2, 3]], native_views = 0, logcat = []\<rparr>
        \<lparr>avail = [], live = [4096]\<rparr>)
     = Some ('' [Dummy Transcription] '', \<lparr>avail = [], live = [4096]\<rparr>)"
proof -
  let ?h0 = "\<lparr>avail = [4096], live = []\<rparr>"
  let ?h1 = "\<lparr>avail = [], live = [4096]\<rparr>"
  let ?env = "\<lparr>float_arrays = [7 \<mapsto> [1, 2, 3]], native_views = 0, logcat = []\<rparr>"
  have create: "e_init_from_file dummy_engine ''model.bin'' ?h0 = Some (4096, ?h1)"
    by (simp add: dummy_engine_def whisper_init_from_file_def malloc_def)
  have params: "e_full_default_params dummy_engine 0 ?h1 = Some (whisper_full_default_params 0, ?h1)"
    by (simp add: dummy_engine_def)
  have infer: "e_full dummy_engine 4096 ((whisper_full_default_params 0)\<lparr>print_progress := False\<rparr>)
      [1, 2, 3] (of_nat (length [1, 2, 3 :: jfloat])) ?h1 = Some (0, ?h1)"
    by (simp add: dummy_engine_def whisper_full_def)
  have spec: "spec_transcript dummy_engine 4096 ?h1 = Some ('' [Dummy Transcription] '', ?h1)"
    by (simp add: spec_transcript_def dummy_engine_def whisper_full_n_segments_def
          whisper_full_get_segment_text_def)
  from transcribe_concatenates_segments
         [OF create dummy_init_example _ _ params infer, where audioData = 7 and env = ?env]
       dummy_init_example spec
  show ?thesis
    by simp
qed

subsection \<open>Degraded results\<close>

text \<open>
  Claim C2. With the zero handle, \<open>transcribe\<close> returns the empty string and calls no
  engine function: run on the wrapped engine, it leaves the engine state and the trace as
  they were (and the runtime too, whatever the array reference is). With a non-zero
  handle, if \<open>infer\<close> returns a status other than 0, \<open>transcribe\<close> returns the empty
  string.
\<close>

theorem transcribe_empty_without_context_or_on_failure:
  "transcribe (traced eng) 0 audioData env (s, tr) = Some ('''', env, (s, tr)) \<and>
   (h \<noteq> 0 \<and> float_arrays env audioData = Some samples \<and>
    e_full_default_params eng 0 s = Some (params0, s1) \<and>
    e_full eng (jlong_to_ptr h) (params0\<lparr>print_progress := False\<rparr>) samples
      (of_nat (length samples)) s1 = Some (status, s2) \<and>
    status \<noteq> 0 \<longrightarrow>
    (\<exists>env'. transcribe eng h audioData env s = Some ('''', env', s2)))"
  by (simp add: bridge_defs jlong_to_ptr_def NewStringUTF_def GetArrayLength_def
        GetFloatArrayElements_def)

theorem transcribe_empty_without_context_or_on_failure_witness:
  "transcribe (traced (dummy_engine\<lparr>e_full := \<lambda>ctx params samples n_samples h. Some (1, h)\<rparr>)) 0 7
     \<lparr>float_arrays = [7 \<mapsto> [1, 2, 3]], native_views = 0, logcat = []\<rparr>
     (\<lparr>avail = [], live = [4096]\<rparr>, [])
     = Some ('''', \<lparr>float_arrays = [7 \<mapsto> [1, 2, 3]], native_views = 0, logcat = []\<rparr>,
             (\<lparr>avail = [], live = [4096]\<rparr>, [])) \<and>
   (\<exists>env'. transcribe (dummy_engine\<lparr>e_full := \<lambda>ctx params samples n_samples h. Some (1, h)\<rparr>) 4096 7
     \<lparr>float_arrays = [7 \<mapsto> [1, 2, 3]], native_views = 0, logcat = []\<rparr>
     \<lparr>avail = [], live = [4096]\<rparr>
     = Some ('''', env', \<lparr>avail = [], live = [4096]\<rparr>))"
  using transcribe_empty_without_context_or_on_failure
    [of "dummy_engine\<lparr>e_full := \<lambda>ctx params samples n_samples h. Some (1, h)\<rparr>" 7
        "\<lparr>float_arrays = [7 \<mapsto> [1, 2, 3]], native_views = 0, logcat = []\<rparr>"
        "\<lparr>avail = [], live = [4096]\<rparr>" "[]" 4096 "[1, 2, 3]"
        "whisper_full_default_params 0" "\<lparr>avail = [], live = [4096]\<rparr>" 1
        "\<lparr>avail = [], live = [4096]\<rparr>"]
  by (simp add: dummy_engine_def)

subsection \<open>Teardown\<close>

text \<open>
  Claim C3. \<open>free\<close> with the zero handle returns without a fault and changes nothing;
  run on the wrapped engine, the trace shows that \<open>destroy\<close> was not called. \<open>free\<close> with
  a non-zero handle, the cast of a context pointer \<open>ctx\<close>, calls \<open>destroy\<close> on exactly
  \<open>ctx\<close> and does nothing else: its outcome is that of the one call, and the trace grows by
  the single entry \<open>Call_free ctx\<close>. Every handle is the cast of a pointer.
\<close>

theorem free_destroys_once_unless_zero:
  "free (traced eng) 0 env (s, tr) = Some (env, (s, tr)) \<and>
   (ptr_to_jlong ctx \<noteq> 0 \<longrightarrow>
    free (traced eng) (ptr_to_jlong ctx) env (s, tr) =
      map_option (\<lambda>s'. (env, (s', tr @ [Call_free ctx]))) (e_free eng ctx s)) \<and>
   ptr_to_jlong (jlong_to_ptr h) = h"
  by (simp add: bridge_defs jlong_to_ptr_def ptr_to_jlong_def traced_simps
        split: Option.bind_split)

theorem free_destroys_once_unless_zero_witness:
  "free (traced dummy_engine) 0 \<lparr>float_arrays = Map.empty, native_views = 0, logcat = []\<rparr>
     (\<lparr>avail = [], live = [4096]\<rparr>, [])
     = Some (\<lparr>float_arrays = Map.empty, native_views = 0, logcat = []\<rparr>,
             (\<lparr>avail = [], live = [4096]\<rparr>, [])) \<and>
   free (traced dummy_engine) 4096 \<lparr>float_arrays = Map.empty, native_views = 0, logcat = []\<rparr>
     (\<lparr>avail = [], live = [4096]\<rparr>, [])
     = Some (\<lparr>float_arrays = Map.empty, native_views = 0, logcat = []\<rparr>,
             (\<lparr>avail = [4096], live = []\<rparr>, [Call_free 4096]))"
  using free_destroys_once_unless_zero
    [of dummy_engine "\<lparr>float_arrays = Map.empty, native_views = 0, logcat = []\<rparr>"
        "\<lparr>avail = [], live = [4096]\<rparr>" "[]" 4096 4096]
  by (simp add: dummy_engine_def whisper_free_def c_free_def ptr_to_jlong_def)

subsection \<open>Creation\<close>

text \<open>
  Claim C4. For every model locator, whenever \<open>create\<close> returns, \<open>init\<close> returns too
  (an ordinary return value; the bridge has no other way out, it raises nothing): the
  zero handle if \<open>create\<close> returned the null pointer, and otherwise a non-zero handle from
  which the cast recovers exactly the context that \<open>create\<close> returned.
\<close>

theorem init_handle_encodes_context:
  assumes "e_init_from_file eng modelPath s = Some (ctx, s')"
  shows "\<exists>h env'. init eng modelPath language threads env s = Some (h, env', s') \<and>
           (ctx = 0 \<longrightarrow> h = 0) \<and> (ctx \<noteq> 0 \<longrightarrow> h \<noteq> 0 \<and> jlong_to_ptr h = ctx)"
  using assms
  by (simp add: bridge_defs GetStringUTFChars_def Let_def jlong_to_ptr_def ptr_to_jlong_def)

theorem init_handle_encodes_context_witness:
  "e_init_from_file dummy_engine ''model.bin'' \<lparr>avail = [4096], live = []\<rparr>
     = Some (4096, \<lparr>avail = [], live = [4096]\<rparr>) \<and>
   (\<exists>h env'. init dummy_engine ''model.bin'' ''en'' 4
       \<lparr>float_arrays = Map.empty, native_views = 0, logcat = []\<rparr> \<lparr>avail = [4096], live = []\<rparr>
       = Some (h, env', \<lparr>avail = [], live = [4096]\<rparr>) \<and> h \<noteq> 0 \<and> jlong_to_ptr h = 4096)"
proof -
  have create: "e_init_from_file dummy_engine ''model.bin'' \<lparr>avail = [4096], live = []\<rparr>
      = Some (4096, \<lparr>avail = [], live = [4096]\<rparr>)"
    by (simp add: dummy_engine_def whisper_init_from_file_def malloc_def)
  from init_handle_encodes_context [OF create, of "''en''" 4
      "\<lparr>float_arrays = Map.empty, native_views = 0, logcat = []\<rparr>"] create
  show ?thesis
    by simp
qed

subsection \<open>The stub engine behind the bridge\<close>

text \<open>
  Claim C5. With the stub engine, for a handle \<open>h\<close> obtained from a successful \<open>init\<close>
  and an array of samples of any contents, \<open>transcribe\<close> returns exactly the fixed
  placeholder string, and leaves the engine state as it was: the stub's
  \<open>segment_count\<close> is 1 for every context and its \<open>segment_text\<close> is the same string
  for every context and index.
\<close>

theorem stub_transcribe_placeholder:
  assumes "init dummy_engine modelPath language threads env0 s0 = Some (h, env0', s0')"
    and "h \<noteq> 0"
    and "float_arrays env audioData = Some samples"
  shows "(\<exists>env'. transcribe dummy_engine h audioData env s =
            Some ('' [Dummy Transcription] '', env', s)) \<and>
         whisper_full_n_segments ctx = 1 \<and>
         whisper_full_get_segment_text ctx i = '' [Dummy Transcription] ''"
  using assms(2,3)
  by (simp add: dummy_transcribe whisper_full_n_segments_def whisper_full_get_segment_text_def)

theorem stub_transcribe_placeholder_witness:
  "init dummy_engine ''model.bin'' ''en'' 4
     \<lparr>float_arrays = [7 \<mapsto> [0, 0, 0]], native_views = 0, logcat = []\<rparr>
     \<lparr>avail = [4096], live = []\<rparr>
   = Some (4096,
       \<lparr>float_arrays = [7 \<mapsto> [0, 0, 0]], native_views = 0,
        logcat = [(ANDROID_LOG_INFO, ''WhisperJNI'', ''Initializing Whisper model from %s'',
                   [Arg_str ''model.bin''])]\<rparr>,
       \<lparr>avail = [], live = [4096]\<rparr>) \<and>
   (\<exists>env'. transcribe dummy_engine 4096 7
       \<lparr>float_arrays = [7 \<mapsto> [0, 0, 0]], native_views = 0,
        logcat = [(ANDROID_LOG_INFO, ''WhisperJNI'', ''Initializing Whisper model from %s'',
                   [Arg_str ''model.bin''])]\<rparr>
       \<lparr>avail = [], live = [4096]\<rparr>
     = Some ('' [Dummy Transcription] '', env', \<lparr>avail = [], live = [4096]\<rparr>))"
  using stub_transcribe_placeholder [OF dummy_init_example, where audioData = 7
      and samples = "[0, 0, 0]" and s = "\<lparr>avail = [], live = [4096]\<rparr>"
      and env = "\<lparr>float_arrays = [7 \<mapsto> [0, 0, 0]], native_views = 0,
        logcat = [(ANDROID_LOG_INFO, ''WhisperJNI'', ''Initializing Whisper model from %s'',
                   [Arg_str ''model.bin''])]\<rparr>"]
    dummy_init_example
  by simp

text \<open>
  Claim C6, as stated, fails: the stub's \<open>create\<close> returns what \<^verbatim>\<open>malloc\<close> returns,
  unchecked. On a heap with no block left, \<^verbatim>\<open>whisper_init_from_file\<close> returns the null
  pointer for the empty locator, and \<open>init\<close> logs the failure and returns the zero handle.
\<close>

theorem stub_create_fails_without_memory:
  "whisper_init_from_file '''' \<lparr>avail = [], live = []\<rparr> = (0, \<lparr>avail = [], live = []\<rparr>) \<and>
   init dummy_engine '''' ''en'' 4
     \<lparr>float_arrays = Map.empty, native_views = 0, logcat = []\<rparr> \<lparr>avail = [], live = []\<rparr>
   = Some (0,
       \<lparr>float_arrays = Map.empty, native_views = 0,
        logcat = [(ANDROID_LOG_INFO, ''WhisperJNI'', ''Initializing Whisper model from %s'',
                   [Arg_str '''']),
                  (ANDROID_LOG_ERROR, ''WhisperJNI'', ''Failed to initialize Whisper context'', [])]\<rparr>,
       \<lparr>avail = [], live = []\<rparr>)"
  by (simp add: bridge_defs dummy_engine_def whisper_init_from_file_def malloc_def
        GetStringUTFChars_def ReleaseStringUTFChars_def LOGI_def LOGE_def TAG_def
        android_log_print_def)

text \<open>
  Claim C6, amended. The stub's \<open>create\<close> does not look at the model locator, and it
  succeeds whenever the allocation does: for every locator (the empty string included)
  and every heap on which \<^verbatim>\<open>malloc\<close> returns a block, \<^verbatim>\<open>whisper_init_from_file\<close> returns
  a non-null context, the same as for any other locator, and \<open>init\<close> through the bridge
  returns a non-zero handle.
\<close>

theorem stub_create_succeeds_when_malloc_does:
  assumes "fst (malloc sizeof_whisper_context heap) \<noteq> 0"
  shows "fst (whisper_init_from_file path_model heap) \<noteq> 0 \<and>
         whisper_init_from_file path_model heap = whisper_init_from_file '''' heap \<and>
         (\<exists>h env'. init dummy_engine path_model language threads env heap =
                     Some (h, env', snd (whisper_init_from_file path_model heap)) \<and> h \<noteq> 0)"
proof -
  obtain ctx heap' where m: "malloc sizeof_whisper_context heap = (ctx, heap')"
    by (cases "malloc sizeof_whisper_context heap")
  with assms have "ctx \<noteq> 0"
    by simp
  with m show ?thesis
    by (simp add: bridge_defs dummy_engine_def whisper_init_from_file_def GetStringUTFChars_def
          Let_def ptr_to_jlong_def)
qed

theorem stub_create_succeeds_when_malloc_does_witness:
  "fst (malloc sizeof_whisper_context \<lparr>avail = [4096], live = []\<rparr>) \<noteq> 0 \<and>
   fst (whisper_init_from_file '''' \<lparr>avail = [4096], live = []\<rparr>) \<noteq> 0 \<and>
   (\<exists>h env'. init dummy_engine '''' ''en'' 4
        \<lparr>float_arrays = Map.empty, native_views = 0, logcat = []\<rparr> \<lparr>avail = [4096], live = []\<rparr>
        = Some (h, env', snd (whisper_init_from_file '''' \<lparr>avail = [4096], live = []\<rparr>)) \<and> h \<noteq> 0)"
proof -
  have m: "fst (malloc sizeof_whisper_context \<lparr>avail = [4096], live = []\<rparr>) \<noteq> 0"
    by (simp add: malloc_def)
  from stub_create_succeeds_when_malloc_does [OF m, of "''''" "''en''" 4
      "\<lparr>float_arrays = Map.empty, native_views = 0, logcat = []\<rparr>"] m
  show ?thesis
    by simp
qed

subsection \<open>Parameters\<close>

text \<open>
  Claim C7. For every strategy value \<open>k\<close>, the stub's \<open>default_parameters\<close> returns
  parameters whose strategy selector is \<open>k\<close> and whose progress flag is false. And
  whenever \<open>transcribe\<close> gets past its null check and returns, on any engine, its first
  engine call asked for the default parameters of strategy 0 (greedy), its second was
  \<open>infer\<close> on the handle's context with exactly those parameters, the progress flag
  cleared, and with the array's samples and their number; no later call asked for
  parameters again.
\<close>

theorem transcribe_requests_greedy:
  "strategy (whisper_full_default_params k) = k \<and>
   \<not> print_progress (whisper_full_default_params k) \<and>
   (h \<noteq> 0 \<and> transcribe (traced eng) h audioData env (s, tr) = Some (text, env', (s', tr')) \<longrightarrow>
    (\<exists>params0 s1 samples rest.
       e_full_default_params eng 0 s = Some (params0, s1) \<and>
       float_arrays env audioData = Some samples \<and>
       tr' = tr @ [Call_full_default_params 0,
                   Call_full (jlong_to_ptr h) (params0\<lparr>print_progress := False\<rparr>) samples
                     (of_nat (length samples))] @ rest \<and>
       requested_strategies rest = []))"
proof -
  have "\<exists>params0 s1 samples rest.
       e_full_default_params eng 0 s = Some (params0, s1) \<and>
       float_arrays env audioData = Some samples \<and>
       tr' = tr @ [Call_full_default_params 0,
                   Call_full (jlong_to_ptr h) (params0\<lparr>print_progress := False\<rparr>) samples
                     (of_nat (length samples))] @ rest \<and>
       requested_strategies rest = []"
    if h: "h \<noteq> 0"
      and run: "transcribe (traced eng) h audioData env (s, tr) = Some (text, env', (s', tr'))"
  proof -
    from h have ctx: "jlong_to_ptr h \<noteq> 0"
      by (simp add: jlong_to_ptr_def)
    from run ctx obtain samples where arr: "float_arrays env audioData = Some samples"
      by (cases "float_arrays env audioData") (auto simp: bridge_defs GetArrayLength_def)
    note run' = run [unfolded transcribe_with_context [OF h arr]]
    from run' obtain params0 s1 where dp: "e_full_default_params eng 0 s = Some (params0, s1)"
      by (cases "e_full_default_params eng 0 s") (auto simp: traced_simps logged_simps)
    let ?p = "params0\<lparr>print_progress := False\<rparr>"
    let ?n = "of_nat (length samples) :: c_int"
    let ?tr2 = "tr @ [Call_full_default_params 0, Call_full (jlong_to_ptr h) ?p samples ?n]"
    from run' dp obtain status s2
      where inf: "e_full eng (jlong_to_ptr h) ?p samples ?n s1 = Some (status, s2)"
      by (cases "e_full eng (jlong_to_ptr h) ?p samples ?n s1")
         (auto simp: traced_simps logged_simps)
    show ?thesis
    proof (cases "status = 0")
      case False
      with run' dp inf have "tr' = ?tr2 @ []"
        by (auto simp: traced_simps logged_simps)
      with dp arr show ?thesis
        by (intro exI [of _ params0] exI [of _ s1] exI [of _ samples] exI [of _ "[]"]) simp
    next
      case True
      from run' dp inf True obtain n s3
        where cnt: "e_full_n_segments eng (jlong_to_ptr h) s2 = Some (n, s3)"
        by (cases "e_full_n_segments eng (jlong_to_ptr h) s2")
           (auto simp: traced_simps logged_simps)
      from run' dp inf True cnt obtain r
        where loop: "transcribe_loop (traced eng) (jlong_to_ptr h) n 0 []
                       (s3, ?tr2 @ [Call_full_n_segments (jlong_to_ptr h)]) = Some (r, (s', tr'))"
        by (auto simp: traced_simps logged_simps Option.bind_eq_Some_conv)
      from traced_loop_trace [OF loop refl]
      obtain rest where "tr' = (?tr2 @ [Call_full_n_segments (jlong_to_ptr h)]) @ rest"
          "requested_strategies rest = []"
        by auto
      then have "tr' = ?tr2 @ (Call_full_n_segments (jlong_to_ptr h) # rest)"
          "requested_strategies (Call_full_n_segments (jlong_to_ptr h) # rest) = []"
        by simp_all
      with dp arr show ?thesis
        by (intro exI [of _ params0] exI [of _ s1] exI [of _ samples]
              exI [of _ "Call_full_n_segments (jlong_to_ptr h) # rest"]) simp
    qed
  qed
  then show ?thesis
    by (simp add: whisper_full_default_params_def)
qed

theorem transcribe_requests_greedy_witness:
  "transcribe (traced dummy_engine) 4096 7
     \<lparr>float_arrays = [7 \<mapsto> [1, 2, 3]], native_views = 0, logcat = []\<rparr>
     (\<lparr>avail = [], live = [4096]\<rparr>, [])
   = Some ('' [Dummy Transcription] '',
       \<lparr>float_arrays = [7 \<mapsto> [1, 2, 3]], native_views = 0,
        logcat = [(ANDROID_LOG_INFO, ''WhisperJNI'', ''Starting transcription of %d samples'',
                   [Arg_int 3])]\<rparr>,
       (\<lparr>avail = [], live = [4096]\<rparr>,
        [Call_full_default_params 0,
         Call_full 4096 \<lparr>strategy = 0, print_progress = False\<rparr> [1, 2, 3] 3,
         Call_full_n_segments 4096,
         Call_full_get_segment_text 4096 0])) \<and>
   (\<exists>params0 s1 samples rest.
       e_full_default_params dummy_engine 0 \<lparr>avail = [], live = [4096]\<rparr> = Some (params0, s1) \<and>
       [Call_full_default_params 0,
        Call_full 4096 \<lparr>strategy = 0, print_progress = False\<rparr> [1, 2, 3] 3,
        Call_full_n_segments 4096,
        Call_full_get_segment_text 4096 0]
       = [] @ [Call_full_default_params 0,
               Call_full (jlong_to_ptr 4096) (params0\<lparr>print_progress := False\<rparr>) samples
                 (of_nat (length samples))] @ rest \<and>
       requested_strategies rest = [])"
proof -
  have nz: "(4096 :: jlong) \<noteq> 0"
    by simp
  from nz traced_dummy_run
    transcribe_requests_greedy [of 0 4096 dummy_engine 7
      "\<lparr>float_arrays = [7 \<mapsto> [1, 2, 3]], native_views = 0, logcat = []\<rparr>"
      "\<lparr>avail = [], live = [4096]\<rparr>" "[]" "'' [Dummy Transcription] ''"
      "\<lparr>float_arrays = [7 \<mapsto> [1, 2, 3]], native_views = 0,
        logcat = [(ANDROID_LOG_INFO, ''WhisperJNI'', ''Starting transcription of %d samples'',
                   [Arg_int 3])]\<rparr>"
      "\<lparr>avail = [], live = [4096]\<rparr>"
      "[Call_full_default_params 0,
         Call_full 4096 \<lparr>strategy = 0, print_progress = False\<rparr> [1, 2, 3] 3,
         Call_full_n_segments 4096,
         Call_full_get_segment_text 4096 0]"]
  show ?thesis
    by blast
qed

subsection \<open>An empty sample array\<close>

text \<open>
  Claim C8. With the stub engine and a valid handle (one that a successful \<open>init\<close>
  returned), \<open>transcribe\<close> on a sample array of length 0 does not fault: the stub's
  \<open>infer\<close> accepts the empty buffer with length 0 and returns the status 0, and the bridge
  returns a string, the placeholder. Neither the bridge nor the stub reads an element of
  the buffer, so there is no index that could be out of bounds.
\<close>

theorem transcribe_accepts_no_samples:
  assumes "init dummy_engine modelPath language threads env0 s0 = Some (h, env0', s0')"
    and "h \<noteq> 0"
    and "float_arrays env audioData = Some []"
  shows "e_full dummy_engine (jlong_to_ptr h) params [] 0 s = Some (0, s) \<and>
         (\<exists>env'. transcribe dummy_engine h audioData env s =
            Some ('' [Dummy Transcription] '', env', s))"
  using assms(2,3)
  by (simp add: dummy_transcribe) (simp add: dummy_engine_def whisper_full_def)

theorem transcribe_accepts_no_samples_witness:
  "float_arrays \<lparr>float_arrays = [8 \<mapsto> []], native_views = 0, logcat = []\<rparr> 8 = Some [] \<and>
   e_full dummy_engine (jlong_to_ptr 4096) (whisper_full_default_params 0) [] 0
     \<lparr>avail = [], live = [4096]\<rparr> = Some (0, \<lparr>avail = [], live = [4096]\<rparr>) \<and>
   (\<exists>env'. transcribe dummy_engine 4096 8
       \<lparr>float_arrays = [8 \<mapsto> []], native_views = 0, logcat = []\<rparr>
       \<lparr>avail = [], live = [4096]\<rparr>
     = Some ('' [Dummy Transcription] '', env', \<lparr>avail = [], live = [4096]\<rparr>))"
  using transcribe_accepts_no_samples [OF dummy_init_example, where audioData = 8
      and env = "\<lparr>float_arrays = [8 \<mapsto> []], native_views = 0, logcat = []\<rparr>"
      and s = "\<lparr>avail = [], live = [4096]\<rparr>" and params = "whisper_full_default_params 0"]
  by simp

subsection \<open>Repeated transcription\<close>

text \<open>
  Claim C9. With the stub engine, for a handle \<open>h\<close> from a successful \<open>init\<close> and an
  array of samples, two calls of \<open>transcribe\<close> with \<open>h\<close> and the array, the second in the
  state that the first left and with no \<open>free\<close> in between, each return the placeholder
  string, which is the specification's transcript of the context; so the two strings are
  equal. Run on the wrapped engine, each call makes the same four engine calls: it asks for
  the parameters, runs \<open>infer\<close> again on the context with the array's samples, then reads
  the segment count and segment 0 again. The array holds the same samples at the second
  call.
\<close>

theorem transcribe_twice_same_text:
  assumes "init dummy_engine modelPath language threads env0 s0 = Some (h, env0', s0')"
    and "h \<noteq> 0"
    and "float_arrays env audioData = Some samples"
  shows "\<exists>env1 env2.
           transcribe (traced dummy_engine) h audioData env (s, tr) =
             Some ('' [Dummy Transcription] '', env1,
               (s, tr @ [Call_full_default_params 0,
                         Call_full (jlong_to_ptr h) \<lparr>strategy = 0, print_progress = False\<rparr>
                           samples (of_nat (length samples)),
                         Call_full_n_segments (jlong_to_ptr h),
                         Call_full_get_segment_text (jlong_to_ptr h) 0])) \<and>
           float_arrays env1 audioData = Some samples \<and>
           transcribe (traced dummy_engine) h audioData env1
               (s, tr @ [Call_full_default_params 0,
                         Call_full (jlong_to_ptr h) \<lparr>strategy = 0, print_progress = False\<rparr>
                           samples (of_nat (length samples)),
                         Call_full_n_segments (jlong_to_ptr h),
                         Call_full_get_segment_text (jlong_to_ptr h) 0]) =
             Some ('' [Dummy Transcription] '', env2,
               (s, tr @ [Call_full_default_params 0,
                         Call_full (jlong_to_ptr h) \<lparr>strategy = 0, print_progress = False\<rparr>
                           samples (of_nat (length samples)),
                         Call_full_n_segments (jlong_to_ptr h),
                         Call_full_get_segment_text (jlong_to_ptr h) 0,
                         Call_full_default_params 0,
                         Call_full (jlong_to_ptr h) \<lparr>strategy = 0, print_progress = False\<rparr>
                           samples (of_nat (length samples)),
                         Call_full_n_segments (jlong_to_ptr h),
                         Call_full_get_segment_text (jlong_to_ptr h) 0])) \<and>
           transcribe dummy_engine h audioData env s =
             Some ('' [Dummy Transcription] '', env1, s) \<and>
           transcribe dummy_engine h audioData env1 s =
             Some ('' [Dummy Transcription] '', env2, s) \<and>
           spec_transcript dummy_engine (jlong_to_ptr h) s = Some ('' [Dummy Transcription] '', s)"
proof -
  let ?calls = "[Call_full_default_params 0,
                 Call_full (jlong_to_ptr h) \<lparr>strategy = 0, print_progress = False\<rparr> samples
                   (of_nat (length samples)),
                 Call_full_n_segments (jlong_to_ptr h),
                 Call_full_get_segment_text (jlong_to_ptr h) 0]"
  let ?release = "\<lambda>env. ReleaseFloatArrayElements audioData samples 0
         (LOGI ''Starting transcription of %d samples'' [Arg_int (of_nat (length samples))]
           (env\<lparr>native_views := Suc (native_views env)\<rparr>))"
  let ?env1 = "?release env"
  let ?env2 = "?release ?env1"
  have arr1: "float_arrays ?env1 audioData = Some samples"
    using assms(3) by (simp add: float_arrays_Release_same float_arrays_LOGI)
  have first: "transcribe (traced dummy_engine) h audioData env (s, tr) =
      Some ('' [Dummy Transcription] '', ?env1, (s, tr @ ?calls))"
    using assms(2,3) by (rule traced_dummy_transcribe)
  have second: "transcribe (traced dummy_engine) h audioData ?env1 (s, tr @ ?calls) =
      Some ('' [Dummy Transcription] '', ?env2, (s, (tr @ ?calls) @ ?calls))"
    using assms(2) arr1 by (rule traced_dummy_transcribe)
  have first': "transcribe dummy_engine h audioData env s =
      Some ('' [Dummy Transcription] '', ?env1, s)"
    using assms(2,3) by (rule dummy_transcribe)
  have second': "transcribe dummy_engine h audioData ?env1 s =
      Some ('' [Dummy Transcription] '', ?env2, s)"
    using assms(2) arr1 by (rule dummy_transcribe)
  from first second first' second' arr1 dummy_spec_transcript [of "jlong_to_ptr h" s]
  show ?thesis
    by (intro exI [of _ ?env1] exI [of _ ?env2]) simp
qed

theorem transcribe_twice_same_text_witness:
  "\<exists>env1 env2.
     transcribe (traced dummy_engine) 4096 7
       \<lparr>float_arrays = [7 \<mapsto> [0, 0, 0]], native_views = 0, logcat = []\<rparr>
       (\<lparr>avail = [], live = [4096]\<rparr>, [])
     = Some ('' [Dummy Transcription] '', env1,
         (\<lparr>avail = [], live = [4096]\<rparr>,
          [Call_full_default_params 0,
           Call_full 4096 \<lparr>strategy = 0, print_progress = False\<rparr> [0, 0, 0] 3,
           Call_full_n_segments 4096,
           Call_full_get_segment_text 4096 0])) \<and>
     float_arrays env1 7 = Some [0, 0, 0] \<and>
     transcribe (traced dummy_engine) 4096 7 env1
       (\<lparr>avail = [], live = [4096]\<rparr>,
          [Call_full_default_params 0,
           Call_full 4096 \<lparr>strategy = 0, print_progress = False\<rparr> [0, 0, 0] 3,
           Call_full_n_segments 4096,
           Call_full_get_segment_text 4096 0])
     = Some ('' [Dummy Transcription] '', env2,
         (\<lparr>avail = [], live = [4096]\<rparr>,
          [Call_full_default_params 0,
           Call_full 4096 \<lparr>strategy = 0, print_progress = False\<rparr> [0, 0, 0] 3,
           Call_full_n_segments 4096,
           Call_full_get_segment_text 4096 0,
           Call_full_default_params 0,
           Call_full 4096 \<lparr>strategy = 0, print_progress = False\<rparr> [0, 0, 0] 3,
           Call_full_n_segments 4096,
           Call_full_get_segment_text 4096 0])) \<and>
     transcribe dummy_engine 4096 7
       \<lparr>float_arrays = [7 \<mapsto> [0, 0, 0]], native_views = 0, logcat = []\<rparr>
       \<lparr>avail = [], live = [4096]\<rparr>
     = Some ('' [Dummy Transcription] '', env1, \<lparr>avail = [], live = [4096]\<rparr>) \<and>
     transcribe dummy_engine 4096 7 env1 \<lparr>avail = [], live = [4096]\<rparr>
     = Some ('' [Dummy Transcription] '', env2, \<lparr>avail = [], live = [4096]\<rparr>) \<and>
     spec_transcript dummy_engine 4096 \<lparr>avail = [], live = [4096]\<rparr>
     = Some ('' [Dummy Transcription] '', \<lparr>avail = [], live = [4096]\<rparr>)"
  using transcribe_twice_same_text [OF dummy_init_example, where audioData = 7
      and env = "\<lparr>float_arrays = [7 \<mapsto> [0, 0, 0]], native_views = 0, logcat = []\<rparr>"
      and samples = "[0, 0, 0]" and s = "\<lparr>avail = [], live = [4096]\<rparr>" and tr = "[]"]
  by (simp add: jlong_to_ptr_def)

subsection \<open>The caller's samples\<close>

text \<open>
  Claim C10. For every engine, handle and array reference, when \<open>transcribe\<close> returns,
  every float array of the managed heap, the caller's sample array among them, holds what
  it held before the call. This covers the three exits: the zero handle, the failure of
  \<open>infer\<close>, and success. The engine receives the samples as a read-only view, and the
  bridge writes no element: releasing the buffer copies back what was read.
\<close>

theorem transcribe_preserves_samples:
  assumes "transcribe eng h audioData env s = Some (text, env', s')"
  shows "float_arrays env' = float_arrays env"
proof (cases "h = 0")
  case True
  with assms show ?thesis
    by (simp add: bridge_defs jlong_to_ptr_def)
next
  case False
  then have ctx: "jlong_to_ptr h \<noteq> 0"
    by (simp add: jlong_to_ptr_def)
  from assms ctx obtain samples where arr: "float_arrays env audioData = Some samples"
    by (cases "float_arrays env audioData") (auto simp: bridge_defs GetArrayLength_def)
  let ?env2 = "LOGI ''Starting transcription of %d samples'' [Arg_int (of_nat (length samples))]
           (env\<lparr>native_views := Suc (native_views env)\<rparr>)"
  have ok: "float_arrays (ReleaseFloatArrayElements audioData samples 0 ?env2) = float_arrays env"
    using arr by (simp add: float_arrays_Release_same float_arrays_LOGI)
  have failed: "float_arrays (ReleaseFloatArrayElements audioData samples 0
      (LOGE ''Whisper full transcription failed'' [] ?env2)) = float_arrays env"
    using arr by (simp add: float_arrays_Release_same float_arrays_LOGI float_arrays_LOGE)
  from assms [unfolded transcribe_with_context [OF False arr]]
  have "env' = ReleaseFloatArrayElements audioData samples 0 ?env2 \<or>
        env' = ReleaseFloatArrayElements audioData samples 0
                 (LOGE ''Whisper full transcription failed'' [] ?env2)"
    by (auto simp: Option.bind_eq_Some_conv split: if_splits)
  with ok failed show ?thesis
    by auto
qed

theorem transcribe_preserves_samples_witness:
  "transcribe dummy_engine 4096 7
     \<lparr>float_arrays = [7 \<mapsto> [1, 2, 3]], native_views = 0, logcat = []\<rparr>
     \<lparr>avail = [], live = [4096]\<rparr>
   = Some ('' [Dummy Transcription] '',
       \<lparr>float_arrays = [7 \<mapsto> [1, 2, 3]], native_views = 0,
        logcat = [(ANDROID_LOG_INFO, ''WhisperJNI'', ''Starting transcription of %d samples'',
                   [Arg_int 3])]\<rparr>,
       \<lparr>avail = [], live = [4096]\<rparr>) \<and>
   float_arrays \<lparr>float_arrays = [7 \<mapsto> [1, 2, 3]], native_views = 0,
        logcat = [(ANDROID_LOG_INFO, ''WhisperJNI'', ''Starting transcription of %d samples'',
                   [Arg_int 3])]\<rparr>
   = float_arrays \<lparr>float_arrays = [7 \<mapsto> [1, 2, 3]], native_views = 0, logcat = []\<rparr>"
proof -
  have run: "transcribe dummy_engine 4096 7
     \<lparr>float_arrays = [7 \<mapsto> [1, 2, 3]], native_views = 0, logcat = []\<rparr>
     \<lparr>avail = [], live = [4096]\<rparr>
   = Some ('' [Dummy Transcription] '',
       \<lparr>float_arrays = [7 \<mapsto> [1, 2, 3]], native_views = 0,
        logcat = [(ANDROID_LOG_INFO, ''WhisperJNI'', ''Starting transcription of %d samples'',
                   [Arg_int 3])]\<rparr>,
       \<lparr>avail = [], live = [4096]\<rparr>)"
    by (simp add: dummy_transcribe ReleaseFloatArrayElements_def LOGI_def TAG_def
          android_log_print_def)
  from transcribe_preserves_samples [OF run] run
  show ?thesis
    by blast
qed

end
